theory Spec2Isabelle
  imports Complex_Main "HOL-Library.AList"
begin

section \<open>The query subcommand of VectorCode\<close>

text \<open>
  A shallow embedding of \<^verbatim>\<open>src/vectorcode/subcommands/query/__init__.py\<close>: the three
  coroutines \<^verbatim>\<open>get_query_result_files\<close>, \<^verbatim>\<open>build_query_results\<close> and \<^verbatim>\<open>query\<close>.
  Each returns its Python result (or the exception it raises) together with the
  \<^verbatim>\<open>Config\<close> object as the call leaves it and the list of the effects it performed,
  in order. Collaborators that live outside the file (the Chroma collection, the
  embedding function, the reranker, the chunker, the path helpers of \<^verbatim>\<open>cli_utils\<close>
  and the file system) are parameters of the model.
\<close>

subsection \<open>Data\<close>

text \<open>\<^verbatim>\<open>QueryInclude\<close> (a string enum of \<^verbatim>\<open>cli_utils\<close>) and \<^verbatim>\<open>str(key)\<close>.\<close>

datatype QueryInclude = path | document | chunk

fun str_include :: "QueryInclude \<Rightarrow> string" where
  "str_include path = ''path''"
| "str_include document = ''document''"
| "str_include chunk = ''chunk''"

text \<open>
  The fields of \<^verbatim>\<open>Config\<close> that the file reads. \<^verbatim>\<open>configs.query\<close> is \<open>queries\<close> and
  \<^verbatim>\<open>configs.include\<close> is \<open>include_list\<close> (both names are taken in Isabelle). The
  record is extensible: every other field of \<^verbatim>\<open>Config\<close> is in the \<open>more\<close> part.
  \<^verbatim>\<open>query_multiplier\<close> is a Python number, whole or fractional (line 66 converts the
  product with \<^verbatim>\<open>int(...)\<close>); it is a rational here, and products are exact.
\<close>

record Config =
  queries :: "string list option"
  query_exclude :: "string list"
  include_list :: "QueryInclude list"
  n_result :: int
  query_multiplier :: rat
  use_absolute_path :: bool
  project_root :: string
  pipe :: bool

text \<open>The exceptions that the file raises, catches or lets through.\<close>

datatype py_error =
    KeyError string
  | IndexError
  | AssertionError
  | OSError string
  | TypeError
  | ValueError
  | InvalidCollectionException
  | InvalidDimensionException
  | RerankerError

text \<open>
  A \<^verbatim>\<open>where\<close> filter is a nested Python dict; dicts are association lists in insertion
  order, updated with \<^const>\<open>AList.update\<close> (replace in place, else append), as a
  Python dict is.
\<close>

datatype jval = JInt int | JStr string | JList "jval list" | JDict "(string \<times> jval) list"

type_synonym where_filter = "(string \<times> jval) list"

text \<open>
  The metadata of an indexed chunk, as the indexer stores it: \<^verbatim>\<open>path\<close> a string,
  \<^verbatim>\<open>start\<close> and \<^verbatim>\<open>end\<close> integers, each possibly absent (\<^verbatim>\<open>meta.get(k)\<close> is
  \<^verbatim>\<open>None\<close>). On such values \<^verbatim>\<open>int(...)\<close> and \<^verbatim>\<open>str(...)\<close> are the identity.
\<close>

record metadata =
  m_path :: "string option"
  m_start :: "int option"
  m_end :: "int option"

text \<open>
  \<^verbatim>\<open>GetResult\<close> of \<^verbatim>\<open>collection.get\<close> and \<^verbatim>\<open>QueryResult\<close> of \<^verbatim>\<open>collection.query\<close>
  (distances are floating point and left out; only the reranker reads them).
\<close>

record get_result =
  gr_ids :: "string list"
  gr_metadatas :: "metadata list option"
  gr_documents :: "string list option"

record query_result =
  qr_ids :: "string list list"
  qr_metadatas :: "metadata list list"
  qr_documents :: "string list list"

type_synonym embedding = "int list"

text \<open>
  The collection handle: \<^verbatim>\<open>count()\<close>, \<^verbatim>\<open>query(query_embeddings, n_results, where)\<close>,
  the ids of \<^verbatim>\<open>get(where=...)\<close> and \<^verbatim>\<open>get(identifier)\<close>. One invocation sees one
  snapshot of the index.
\<close>

record collection =
  c_count :: int
  c_query :: "embedding list \<Rightarrow> int \<Rightarrow> where_filter option \<Rightarrow> py_error + query_result"
  c_get_where :: "where_filter \<Rightarrow> string list"
  c_get :: "string \<Rightarrow> get_result"

text \<open>
  Everything else the file calls. \<open>files\<close> is the file system: the lines of each
  regular file as \<^verbatim>\<open>readlines()\<close> returns them (\<^verbatim>\<open>read()\<close> is their concatenation);
  \<^verbatim>\<open>os.path.isfile\<close> holds and \<^verbatim>\<open>open\<close> succeeds exactly on its domain. The calls
  whose exceptions the file catches or names (\<^verbatim>\<open>collection.query\<close>, the reranker,
  \<^verbatim>\<open>get_collection\<close>) return a result or an exception; the other collaborators are
  taken to return.
\<close>

record 'a env =
  files :: "string \<rightharpoonup> string list"
  abspath :: "string \<Rightarrow> string"
  relpath :: "string \<Rightarrow> string \<Rightarrow> string"
  expand_globs :: "string list \<Rightarrow> string list"
  expand_path :: "string \<Rightarrow> bool \<Rightarrow> string"
  cleanup_path :: "string \<Rightarrow> string"
  chunker :: "'a Config_scheme \<Rightarrow> string \<Rightarrow> string list"
  embed :: "'a Config_scheme \<Rightarrow> string list \<Rightarrow> embedding list"
  rerank :: "'a Config_scheme \<Rightarrow> query_result \<Rightarrow> py_error + string list"
  get_collection :: "'a Config_scheme \<Rightarrow> py_error + collection"
  verify_ef :: "collection \<Rightarrow> 'a Config_scheme \<Rightarrow> bool"

definition isfile :: "'a env \<Rightarrow> string \<Rightarrow> bool" where
  "isfile env p = (files env p \<noteq> None)"

text \<open>A \<^verbatim>\<open>StructuredResult\<close>: a dict from strings to \<^verbatim>\<open>str | int\<close>.\<close>

datatype rval = VStr string | VInt int

type_synonym structured = "(string \<times> rval) list"

text \<open>The effects, in the order the code performs them.\<close>

datatype log_msg =
    EmptyCollection
  | Excluding nat
  | QueryingChunks int
  | NoChunkSupport
  | StaleFile string
  | BothChunkAndDocument
  | NoCollection py_error
  | DimensionMismatch
  | GetCollectionFailed
  | FallbackToDocument
  | RerankerFailed

datatype event =
    LogError log_msg
  | LogWarning log_msg
  | LogInfo log_msg
  | ExpandGlobs "string list"
  | Count
  | Embed "string list"
  | Query int "where_filter option"
  | Rerank
  | GetWhere where_filter
  | GetId string
  | ReadFile string
  | GetCollection
  | PrintLine string
  | PrintJson "structured list"
  | PrintField QueryInclude "rval option"
  | PrintBlank

subsection \<open>\<^verbatim>\<open>get_query_result_files\<close>\<close>

text \<open>Lines 51--55: the exclusion clause, or the empty dict.\<close>

definition exclusion_filter :: "string list \<Rightarrow> where_filter" where
  "exclusion_filter excl =
     (if length excl \<noteq> 0 then [(''path'', JDict [(''$nin'', JList (map JStr excl))])] else [])"

text \<open>Lines 57--61: what chunk mode adds to the filter.\<close>

definition chunk_filter :: "where_filter \<Rightarrow> where_filter" where
  "chunk_filter flt =
     (if flt \<noteq> [] then [(''$and'', JList [JDict flt, JDict [(''$gte'', JInt 0)]])]
      else AList.update ''start'' (JDict [(''$gte'', JInt 0)]) flt)"

definition build_filter :: "'a Config_scheme \<Rightarrow> where_filter" where
  "build_filter configs =
     (let flt = exclusion_filter (query_exclude configs)
      in if chunk \<in> set (include_list configs) then chunk_filter flt else flt)"

text \<open>Python's \<^verbatim>\<open>int(x)\<close> on a number: truncation towards zero.\<close>

definition py_int :: "rat \<Rightarrow> int" where
  "py_int q = (if 0 \<le> q then \<lfloor>q\<rfloor> else \<lceil>q\<rceil>)"

text \<open>Lines 56--69: the number of candidates, and the calls and logs on the way.\<close>

definition plan_num_query :: "collection \<Rightarrow> 'a Config_scheme \<Rightarrow> int" where
  "plan_num_query coll configs =
     (if chunk \<in> set (include_list configs) then n_result configs
      else if query_multiplier configs > 0
           then min (py_int (of_int (n_result configs) * query_multiplier configs)) (c_count coll)
           else c_count coll)"

definition plan_events :: "collection \<Rightarrow> 'a Config_scheme \<Rightarrow> event list" where
  "plan_events coll configs =
     (if chunk \<in> set (include_list configs) then []
      else if query_multiplier configs > 0
           then [Count, Count, LogInfo (QueryingChunks (plan_num_query coll configs))]
           else [Count])"

definition exclusion_events :: "'a Config_scheme \<Rightarrow> event list" where
  "exclusion_events configs =
     (if length (query_exclude configs) \<noteq> 0
      then [LogInfo (Excluding (length (query_exclude configs)))] else [])"

text \<open>Lines 42--46: the exclusion globs expanded, existing files only, made absolute.\<close>

definition expanded_exclude :: "'a env \<Rightarrow> 'a Config_scheme \<Rightarrow> string list" where
  "expanded_exclude env configs =
     map (\<lambda>i. expand_path env i True)
       (filter (isfile env) (expand_globs env (query_exclude configs)))"

definition get_query_result_files ::
  "'a env \<Rightarrow> collection \<Rightarrow> 'a Config_scheme \<Rightarrow>
     (py_error + string list) \<times> 'a Config_scheme \<times> event list" where
  "get_query_result_files env coll configs0 =
     (let query_chunks =
            (case queries configs0 of None \<Rightarrow> []
             | Some qs \<Rightarrow> concat (map (chunker env configs0) qs));
          configs = configs0\<lparr>query_exclude := expanded_exclude env configs0\<rparr>;
          ev0 = [ExpandGlobs (query_exclude configs0), Count]
      in if c_count coll = 0 then (Inr [], configs, ev0 @ [LogError EmptyCollection])
         else
           (let flt = build_filter configs;
                num_query = plan_num_query coll configs;
                wh = (if flt = [] then None else Some flt);
                ev = ev0 @ exclusion_events configs @ plan_events coll configs
                       @ [Embed query_chunks, Query num_query wh]
            in case c_query coll (embed env configs query_chunks) num_query wh of
                 Inl e \<Rightarrow> if e = IndexError then (Inr [], configs, ev) else (Inl e, configs, ev)
               | Inr results \<Rightarrow>
                   (case rerank env configs results of
                      Inl e \<Rightarrow> (Inl e, configs, ev @ [Rerank])
                    | Inr ids \<Rightarrow> (Inr ids, configs, ev @ [Rerank]))))"

subsection \<open>\<^verbatim>\<open>build_query_results\<close>\<close>

text \<open>
  Line 104, the dict comprehension over \<^verbatim>\<open>configs.include\<close>: a key that
  \<^verbatim>\<open>full_result\<close> lacks raises \<^verbatim>\<open>KeyError\<close>.
\<close>

fun project_keys :: "structured \<Rightarrow> QueryInclude list \<Rightarrow> structured \<Rightarrow> py_error + structured" where
  "project_keys full [] acc = Inr acc"
| "project_keys full (k # ks) acc =
     (case map_of full (str_include k) of
        None \<Rightarrow> Inl (KeyError (str_include k))
      | Some v \<Rightarrow> project_keys full ks (AList.update (str_include k) v acc))"

text \<open>Python's \<^verbatim>\<open>xs[a:b]\<close>: negative bounds count from the end, all bounds are clamped.\<close>

definition py_slice :: "'b list \<Rightarrow> int \<Rightarrow> int \<Rightarrow> 'b list" where
  "py_slice xs a b =
     (let n = int (length xs);
          lo = (if a < 0 then max (a + n) 0 else min a n);
          hi = (if b < 0 then max (b + n) 0 else min b n)
      in take (nat (hi - lo)) (drop (nat lo) xs))"

text \<open>
  Lines 94--105, the branch for an identifier that is an existing file: the record with
  the requested keys, or the exception raised.
\<close>

definition file_branch ::
  "'a env \<Rightarrow> 'a Config_scheme \<Rightarrow> string \<Rightarrow> (py_error + structured list) \<times> event list" where
  "file_branch env configs identifier =
     (let output_path =
            (if use_absolute_path configs then abspath env identifier
             else relpath env identifier (project_root configs));
          full_result0 = [(''path'', VStr output_path)]
      in case files env identifier of
           None \<Rightarrow> (Inl (OSError identifier), [ReadFile identifier])
         | Some ls \<Rightarrow>
             (let full_result = AList.update ''document'' (VStr (concat ls)) full_result0
              in case project_keys full_result (include_list configs) [] of
                   Inl e \<Rightarrow> (Inl e, [ReadFile identifier])
                 | Inr r \<Rightarrow> (Inr [r], [ReadFile identifier])))"

text \<open>
  Lines 118--139: the record for a chunk with metadata \<open>meta0\<close> and indexed text
  \<open>text0\<close>. It is appended only inside the test of line 122.
\<close>

definition chunk_record ::
  "'a env \<Rightarrow> 'a Config_scheme \<Rightarrow> string \<Rightarrow> metadata \<Rightarrow> string \<Rightarrow>
     (py_error + structured list) \<times> event list" where
  "chunk_record env configs identifier meta0 text0 =
     (let full_result0 = [(''chunk'', VStr text0), (''chunk_id'', VStr identifier)]
      in case m_start meta0 of
           None \<Rightarrow> (Inr [], [])
         | Some start \<Rightarrow>
             (case m_end meta0 of
                None \<Rightarrow> (Inr [], [])
              | Some end_line \<Rightarrow>
                  (let p = (case m_path meta0 of None \<Rightarrow> ''None'' | Some s \<Rightarrow> s)
                   in case files env p of
                        None \<Rightarrow> (Inl (OSError p), [ReadFile p])
                      | Some ls \<Rightarrow>
                          (let full_result1 =
                                 AList.update ''chunk''
                                   (VStr (concat (py_slice ls start (end_line + 1)))) full_result0;
                               full_result2 = AList.update ''start_line'' (VInt start) full_result1;
                               full_result3 = AList.update ''end_line'' (VInt end_line) full_result2
                           in if path \<in> set (include_list configs) then
                                (case m_path meta0 of
                                   None \<Rightarrow> (Inl (KeyError ''path''), [ReadFile p])
                                 | Some mp \<Rightarrow>
                                     (Inr [AList.update ''path''
                                             (VStr (if use_absolute_path configs then mp
                                                    else relpath env mp (project_root configs)))
                                             full_result3], [ReadFile p]))
                              else (Inr [full_result3], [ReadFile p])))))"

text \<open>Lines 107--143, the branch for an identifier that is not a file, in chunk mode.\<close>

definition chunk_branch ::
  "'a env \<Rightarrow> collection \<Rightarrow> 'a Config_scheme \<Rightarrow> string \<Rightarrow>
     (py_error + structured list) \<times> event list" where
  "chunk_branch env coll configs identifier =
     (let chunks = c_get coll identifier
      in case gr_metadatas chunks of
           None \<Rightarrow> (Inr [], [GetId identifier, LogError NoChunkSupport])
         | Some [] \<Rightarrow> (Inr [], [GetId identifier, LogError NoChunkSupport])
         | Some (meta0 # metas) \<Rightarrow>
             (case gr_documents chunks of
                None \<Rightarrow> (Inl AssertionError, [GetId identifier])
              | Some [] \<Rightarrow> (Inl IndexError, [GetId identifier])
              | Some (text0 # texts) \<Rightarrow>
                  (case chunk_record env configs identifier meta0 text0 of
                     (r, ev) \<Rightarrow> (r, GetId identifier # ev))))"

text \<open>
  Lines 93--148, the body of the loop for one identifier: the records it appends to
  \<^verbatim>\<open>structured_result\<close> (none or one) or the exception it raises, and its effects.
\<close>

definition build_query_results_step ::
  "'a env \<Rightarrow> collection \<Rightarrow> 'a Config_scheme \<Rightarrow> string \<Rightarrow>
     (py_error + structured list) \<times> event list" where
  "build_query_results_step env coll configs identifier =
     (if isfile env identifier then file_branch env configs identifier
      else if chunk \<in> set (include_list configs) then chunk_branch env coll configs identifier
      else (Inr [], [LogWarning (StaleFile identifier)]))"

text \<open>Lines 92--148: the loop over the reranked identifiers; an exception ends it.\<close>

fun build_query_results_loop ::
  "'a env \<Rightarrow> collection \<Rightarrow> 'a Config_scheme \<Rightarrow> string list \<Rightarrow>
     (py_error + structured list) \<times> event list" where
  "build_query_results_loop env coll configs [] = (Inr [], [])"
| "build_query_results_loop env coll configs (identifier # rest) =
     (case build_query_results_step env coll configs identifier of
        (Inl e, ev) \<Rightarrow> (Inl e, ev)
      | (Inr rs, ev) \<Rightarrow>
          (case build_query_results_loop env coll configs rest of
             (Inl e, ev') \<Rightarrow> (Inl e, ev @ ev')
           | (Inr rs', ev') \<Rightarrow> (Inr (rs @ rs'), ev @ ev')))"

text \<open>
  Lines 149--151: the clean-up of every \<^verbatim>\<open>path\<close>. \<^verbatim>\<open>cleanup_path\<close> takes a string;
  on an integer it raises \<^verbatim>\<open>TypeError\<close>.
\<close>

definition cleanup_result :: "'a env \<Rightarrow> structured \<Rightarrow> py_error + structured" where
  "cleanup_result env r =
     (case map_of r ''path'' of
        None \<Rightarrow> Inr r
      | Some (VStr p) \<Rightarrow> Inr (AList.update ''path'' (VStr (cleanup_path env p)) r)
      | Some (VInt i) \<Rightarrow> Inl TypeError)"

fun cleanup_results :: "'a env \<Rightarrow> structured list \<Rightarrow> py_error + structured list" where
  "cleanup_results env [] = Inr []"
| "cleanup_results env (r # rs) =
     (case cleanup_result env r of
        Inl e \<Rightarrow> Inl e
      | Inr r' \<Rightarrow>
          (case cleanup_results env rs of
             Inl e \<Rightarrow> Inl e
           | Inr rs' \<Rightarrow> Inr (r' # rs')))"

definition build_query_results ::
  "'a env \<Rightarrow> collection \<Rightarrow> 'a Config_scheme \<Rightarrow>
     (py_error + structured list) \<times> 'a Config_scheme \<times> event list" where
  "build_query_results env coll configs0 =
     (case get_query_result_files env coll configs0 of
        (Inl e, configs, ev) \<Rightarrow> (Inl e, configs, ev)
      | (Inr ids, configs, ev) \<Rightarrow>
          (case build_query_results_loop env coll configs ids of
             (Inl e, ev') \<Rightarrow> (Inl e, configs, ev @ ev')
           | (Inr structured_result, ev') \<Rightarrow>
               (case cleanup_results env structured_result of
                  Inl e \<Rightarrow> (Inl e, configs, ev @ ev')
                | Inr out \<Rightarrow> (Inr out, configs, ev @ ev'))))"

subsection \<open>\<^verbatim>\<open>query\<close>\<close>

text \<open>The probe of line 189 and the filter clause it sends.\<close>

definition presence_clause :: where_filter where
  "presence_clause = [(''start'', JDict [(''$gte'', JInt 0)])]"

text \<open>Lines 207--211: the output for a terminal.\<close>

fun print_results :: "QueryInclude list \<Rightarrow> structured list \<Rightarrow> event list" where
  "print_results inc [] = []"
| "print_results inc [r] = map (\<lambda>i. PrintField i (map_of r (str_include i))) inc"
| "print_results inc (r # rs) =
     map (\<lambda>i. PrintField i (map_of r (str_include i))) inc @ [PrintBlank] @ print_results inc rs"

text \<open>Lines 188--195: the capability fallback.\<close>

definition fallback :: "collection \<Rightarrow> 'a Config_scheme \<Rightarrow> 'a Config_scheme \<times> event list" where
  "fallback coll configs =
     (if chunk \<in> set (include_list configs) then
        (if length (c_get_where coll presence_clause) = 0
         then (configs\<lparr>include_list := [path, document]\<rparr>,
               [GetWhere presence_clause, LogWarning FallbackToDocument])
         else (configs, [GetWhere presence_clause]))
      else (configs, []))"

definition query ::
  "'a env \<Rightarrow> 'a Config_scheme \<Rightarrow> (py_error + int) \<times> 'a Config_scheme \<times> event list" where
  "query env configs =
     (if chunk \<in> set (include_list configs) \<and> document \<in> set (include_list configs)
      then (Inr 1, configs, [LogError BothChunkAndDocument])
      else
        (case get_collection env configs of
           Inl e \<Rightarrow>
             (if e = ValueError \<or> e = InvalidCollectionException
              then (Inr 1, configs, [GetCollection, LogError (NoCollection e)])
              else if e = InvalidDimensionException
              then (Inr 1, configs, [GetCollection, LogError DimensionMismatch])
              else if e = IndexError
              then (Inr 1, configs, [GetCollection, LogError GetCollectionFailed])
              else (Inl e, configs, [GetCollection]))
         | Inr coll \<Rightarrow>
             (if \<not> verify_ef env coll configs then (Inr 1, configs, [GetCollection])
              else
                (let ev1 = [GetCollection]
                           @ (if \<not> pipe configs then [PrintLine ''Starting querying...''] else [])
                 in case fallback coll configs of
                      (configs1, ev2) \<Rightarrow>
                        (case build_query_results env coll configs1 of
                           (Inl e, configs2, ev3) \<Rightarrow>
                             (if e = RerankerError
                              then (Inr 1, configs2, ev1 @ ev2 @ ev3 @ [LogError RerankerFailed])
                              else (Inl e, configs2, ev1 @ ev2 @ ev3))
                         | (Inr structured_result, configs2, ev3) \<Rightarrow>
                             (Inr 0, configs2,
                              ev1 @ ev2 @ ev3
                              @ (if pipe configs2 then [PrintJson structured_result]
                                 else print_results (include_list configs2) structured_result)))))))"

subsection \<open>Reading a list of effects\<close>

text \<open>The index searches of a run with their arguments, its embedding calls and its probes.\<close>

fun searches :: "event list \<Rightarrow> (int \<times> where_filter option) list" where
  "searches [] = []"
| "searches (Query n w # ev) = (n, w) # searches ev"
| "searches (e # ev) = searches ev"

fun is_embed :: "event \<Rightarrow> bool" where
  "is_embed (Embed qs) = True"
| "is_embed e = False"

fun is_probe :: "event \<Rightarrow> bool" where
  "is_probe (GetWhere w) = True"
| "is_probe e = False"

text \<open>A stretch of a run that neither probes, nor embeds, nor searches the index.\<close>

definition quiet :: "event list \<Rightarrow> bool" where
  "quiet ev = (filter is_probe ev = [] \<and> filter is_embed ev = [] \<and> searches ev = [])"

text \<open>The keys of a result.\<close>

definition keys :: "structured \<Rightarrow> string set" where
  "keys r = fst ` set r"

text \<open>The keys of a record of the chunk branch.\<close>

definition chunk_keys :: "'a Config_scheme \<Rightarrow> string set" where
  "chunk_keys configs =
     {''chunk'', ''chunk_id'', ''start_line'', ''end_line''}
     \<union> (if path \<in> set (include_list configs) then {''path''} else {})"

subsection \<open>A small index and project, for concrete runs\<close>

definition ex_files :: "string \<rightharpoonup> string list" where
  "ex_files =
     [''/p/x.py'' \<mapsto> [''hello''],
      ''/p/big.py'' \<mapsto> [''import os'', ''import sys'', '''', ''def f():'', ''  return 1'', '''',
                          ''def g():'', ''  return 2'', '''', ''# tail'',
                          ''a'', ''b'', ''c'', ''# end'']]"

definition ex_get :: "string \<Rightarrow> get_result" where
  "ex_get i =
     (if i = ''c1'' then
        \<lparr>gr_ids = [i],
         gr_metadatas = Some [\<lparr>m_path = Some ''/p/big.py'', m_start = Some 10, m_end = Some 12\<rparr>],
         gr_documents = Some [''stale text'']\<rparr>
      else if i = ''c2'' then
        \<lparr>gr_ids = [i],
         gr_metadatas = Some [\<lparr>m_path = Some ''/p/big.py'', m_start = None, m_end = None\<rparr>],
         gr_documents = Some [''indexed text'']\<rparr>
      else if i = ''c3'' then
        \<lparr>gr_ids = [i],
         gr_metadatas = Some [\<lparr>m_path = Some ''/p/gone.py'', m_start = Some 0, m_end = Some 1\<rparr>],
         gr_documents = Some [''deleted text'']\<rparr>
      else \<lparr>gr_ids = [], gr_metadatas = Some [], gr_documents = Some []\<rparr>)"

definition ex_coll :: "int \<Rightarrow> string list \<Rightarrow> collection" where
  "ex_coll n tagged =
     \<lparr>c_count = n,
      c_query = (\<lambda>es k w. Inr \<lparr>qr_ids = [], qr_metadatas = [], qr_documents = []\<rparr>),
      c_get_where = (\<lambda>w. tagged),
      c_get = ex_get\<rparr>"

definition ex_env :: "collection \<Rightarrow> string list \<Rightarrow> unit env" where
  "ex_env coll ranked =
     \<lparr>files = ex_files,
      abspath = (\<lambda>p. p),
      relpath = (\<lambda>p root. drop (length root + 1) p),
      expand_globs = (\<lambda>ps. ps),
      expand_path = (\<lambda>p b. p),
      cleanup_path = (\<lambda>p. ''~'' @ p),
      chunker = (\<lambda>c q. [q]),
      embed = (\<lambda>c qs. map (\<lambda>q. [int (length q)]) qs),
      rerank = (\<lambda>c r. Inr ranked),
      get_collection = (\<lambda>c. Inr coll),
      verify_ef = (\<lambda>coll c. True)\<rparr>"

text \<open>
  The same project seen from its root as working directory: \<^verbatim>\<open>*.py\<close> matches two
  files and a directory, relative names are files of the root, and
  \<^verbatim>\<open>expand_path(p, True)\<close> puts the root before a relative name.
\<close>

definition ex_cwd_env :: "collection \<Rightarrow> string list \<Rightarrow> unit env" where
  "ex_cwd_env coll ranked =
     (ex_env coll ranked)
       \<lparr>files := (\<lambda>p. if p = ''x.py'' then ex_files ''/p/x.py''
                       else if p = ''big.py'' then ex_files ''/p/big.py'' else ex_files p),
        expand_globs :=
          (\<lambda>ps. concat (map (\<lambda>p. if p = ''*.py'' then [''x.py'', ''pkg'', ''big.py''] else [p]) ps)),
        expand_path := (\<lambda>p absolute. if absolute \<and> take 1 p \<noteq> ''/'' then ''/p/'' @ p else p)\<rparr>"

definition ex_config :: "QueryInclude list \<Rightarrow> string list \<Rightarrow> Config" where
  "ex_config inc excl =
     \<lparr>queries = Some [''foo''], query_exclude = excl, include_list = inc, n_result = 2,
      query_multiplier = 3, use_absolute_path = False, project_root = ''/p'', pipe = True\<rparr>"

section \<open>Properties\<close>

subsection \<open>Auxiliary facts about lists of effects\<close>

lemma searches_append: "searches (xs @ ys) = searches xs @ searches ys"
  by (induction xs rule: searches.induct) simp_all

lemma searches_exclusion_events: "searches (exclusion_events configs) = []"
  by (simp add: exclusion_events_def)

lemma searches_plan_events: "searches (plan_events coll configs) = []"
  by (simp add: plan_events_def)

text \<open>
  On a non-empty index \<^const>\<open>get_query_result_files\<close> searches the index once, with the
  planned count and the filter built from the configuration as line 42 has left it.
\<close>

lemma get_query_result_files_searches:
  "c_count coll \<noteq> 0 \<Longrightarrow>
   searches (snd (snd (get_query_result_files env coll configs))) =
     [(plan_num_query coll (configs\<lparr>query_exclude := expanded_exclude env configs\<rparr>),
       (let flt = build_filter (configs\<lparr>query_exclude := expanded_exclude env configs\<rparr>)
        in if flt = [] then None else Some flt))]"
  by (simp add: get_query_result_files_def Let_def searches_append searches_exclusion_events
        searches_plan_events split: sum.splits)

subsection \<open>Mode validation\<close>

text \<open>
  Claim C7. When the requested output mode holds both \<^verbatim>\<open>document\<close> and \<^verbatim>\<open>chunk\<close>,
  \<^verbatim>\<open>query\<close> returns exit status 1; all it does is log the error: no collection is
  resolved, nothing is retrieved or read, no result set is built or printed and the
  configuration is untouched.
\<close>

theorem query_rejects_chunk_with_document:
  assumes "chunk \<in> set (include_list configs)" and "document \<in> set (include_list configs)"
  shows "query env configs = (Inr 1, configs, [LogError BothChunkAndDocument])"
  using assms by (simp add: query_def)

theorem query_rejects_chunk_with_document_witness:
  "query (ex_env (ex_coll 10 [''c1'']) [''c1'']) (ex_config [chunk, document] [])
     = (Inr 1, ex_config [chunk, document] [], [LogError BothChunkAndDocument])"
  using query_rejects_chunk_with_document
    [of "ex_config [chunk, document] []" "ex_env (ex_coll 10 [''c1'']) [''c1'']"]
  by (simp add: ex_config_def)

subsection \<open>Retrieval planning\<close>





subsection \<open>What a call does to the configuration\<close>

lemma get_query_result_files_config:
  "fst (snd (get_query_result_files env coll configs)) =
     configs\<lparr>query_exclude := expanded_exclude env configs\<rparr>"
  by (simp add: get_query_result_files_def Let_def split: sum.splits)

lemma get_query_result_files_empty:
  "c_count coll = 0 \<Longrightarrow>
   get_query_result_files env coll configs =
     (Inr [], configs\<lparr>query_exclude := expanded_exclude env configs\<rparr>,
      [ExpandGlobs (query_exclude configs), Count, LogError EmptyCollection])"
  by (simp add: get_query_result_files_def Let_def)

lemma build_query_results_empty:
  "c_count coll = 0 \<Longrightarrow>
   build_query_results env coll configs =
     (Inr [], configs\<lparr>query_exclude := expanded_exclude env configs\<rparr>,
      [ExpandGlobs (query_exclude configs), Count, LogError EmptyCollection])"
  by (simp add: build_query_results_def get_query_result_files_empty)

lemma build_query_results_config:
  "fst (snd (build_query_results env coll configs)) =
     configs\<lparr>query_exclude := expanded_exclude env configs\<rparr>"
proof -
  obtain r c ev where g: "get_query_result_files env coll configs = (r, c, ev)"
    by (cases "get_query_result_files env coll configs") auto
  with get_query_result_files_config [of env coll configs]
  have c: "c = configs\<lparr>query_exclude := expanded_exclude env configs\<rparr>" by simp
  show ?thesis
    by (simp add: build_query_results_def g c split: sum.splits prod.splits)
qed

lemma fallback_config:
  "fst (fallback coll configs) =
     configs\<lparr>include_list :=
       (if chunk \<in> set (include_list configs) \<and> c_get_where coll presence_clause = []
        then [path, document] else include_list configs)\<rparr>"
  by (simp add: fallback_def)

lemma expanded_exclude_include:
  "expanded_exclude env (configs\<lparr>include_list := inc\<rparr>) = expanded_exclude env configs"
  by (simp add: expanded_exclude_def)

lemma query_config_reached:
  assumes "\<not> (chunk \<in> set (include_list configs) \<and> document \<in> set (include_list configs))"
    and "get_collection env configs = Inr coll" and "verify_ef env coll configs"
  shows "fst (snd (query env configs)) =
     (fst (fallback coll configs))\<lparr>query_exclude := expanded_exclude env (fst (fallback coll configs))\<rparr>"
proof -
  obtain c1 e2 where f: "fallback coll configs = (c1, e2)"
    by (cases "fallback coll configs") auto
  obtain r c2 e3 where b: "build_query_results env coll c1 = (r, c2, e3)"
    by (cases "build_query_results env coll c1") auto
  from build_query_results_config [of env coll c1] b
  have "c2 = c1\<lparr>query_exclude := expanded_exclude env c1\<rparr>" by simp
  with assms f b show ?thesis
    by (auto simp add: query_def Let_def split: sum.splits)
qed

lemma query_config_early:
  assumes "(chunk \<in> set (include_list configs) \<and> document \<in> set (include_list configs))
     \<or> (\<exists>e. get_collection env configs = Inl e)
     \<or> (\<exists>coll. get_collection env configs = Inr coll \<and> \<not> verify_ef env coll configs)"
  shows "fst (snd (query env configs)) = configs"
  using assms by (auto simp add: query_def)

lemma query_config_frame:
  "(\<exists>excl inc. fst (snd (query env configs)) =
       configs\<lparr>query_exclude := excl, include_list := inc\<rparr>)
   \<and> fst (snd (get_query_result_files env coll configs)) =
       configs\<lparr>query_exclude := expanded_exclude env configs\<rparr>
   \<and> (\<not> (chunk \<in> set (include_list configs) \<and> document \<in> set (include_list configs))
        \<and> get_collection env configs = Inr coll \<and> verify_ef env coll configs
      \<longrightarrow> fst (snd (query env configs)) =
            configs\<lparr>query_exclude := expanded_exclude env configs,
                    include_list :=
                      (if chunk \<in> set (include_list configs)
                          \<and> length (c_get_where coll presence_clause) = 0
                       then [path, document] else include_list configs)\<rparr>)"
proof (intro conjI impI)
  show "\<exists>excl inc. fst (snd (query env configs)) =
       configs\<lparr>query_exclude := excl, include_list := inc\<rparr>"
  proof (cases "(chunk \<in> set (include_list configs) \<and> document \<in> set (include_list configs))
     \<or> (\<exists>e. get_collection env configs = Inl e)
     \<or> (\<exists>coll. get_collection env configs = Inr coll \<and> \<not> verify_ef env coll configs)")
    case True
    then have "fst (snd (query env configs)) = configs" by (rule query_config_early)
    then have "fst (snd (query env configs)) =
       configs\<lparr>query_exclude := query_exclude configs, include_list := include_list configs\<rparr>"
      by simp
    then show ?thesis by blast
  next
    case False
    then obtain c where c: "get_collection env configs = Inr c" "verify_ef env c configs"
      and nb: "\<not> (chunk \<in> set (include_list configs) \<and> document \<in> set (include_list configs))"
      by (cases "get_collection env configs") auto
    from query_config_reached [OF nb c]
    have "fst (snd (query env configs)) =
       configs\<lparr>query_exclude := expanded_exclude env configs,
               include_list := include_list (fst (fallback c configs))\<rparr>"
      by (simp add: fallback_config expanded_exclude_include)
    then show ?thesis by blast
  qed
next
  show "fst (snd (get_query_result_files env coll configs)) =
       configs\<lparr>query_exclude := expanded_exclude env configs\<rparr>"
    by (rule get_query_result_files_config)
next
  assume a: "\<not> (chunk \<in> set (include_list configs) \<and> document \<in> set (include_list configs))
        \<and> get_collection env configs = Inr coll \<and> verify_ef env coll configs"
  then have "fst (snd (query env configs)) =
     (fst (fallback coll configs))\<lparr>query_exclude := expanded_exclude env (fst (fallback coll configs))\<rparr>"
    using query_config_reached [of configs env coll] by blast
  then show "fst (snd (query env configs)) =
            configs\<lparr>query_exclude := expanded_exclude env configs,
                    include_list :=
                      (if chunk \<in> set (include_list configs)
                          \<and> length (c_get_where coll presence_clause) = 0
                       then [path, document] else include_list configs)\<rparr>"
    by (simp add: fallback_config expanded_exclude_include)
qed

text \<open>
  Claim C10. A query invocation changes the caller's \<^verbatim>\<open>Config\<close> in two fields only.
  Whatever path the call takes, the configuration it leaves differs from the one it got
  in \<^verbatim>\<open>query_exclude\<close> and \<^verbatim>\<open>include\<close> at most. \<^verbatim>\<open>get_query_result_files\<close> overwrites
  \<^verbatim>\<open>query_exclude\<close> with the list of line 42: the globs expanded by \<^verbatim>\<open>expand_globs\<close>, the
  matches that are existing files kept, each made absolute by \<^verbatim>\<open>expand_path(i, True)\<close>. A
  call of \<^verbatim>\<open>query\<close> that passes mode validation and resolves its collection leaves that
  list in \<^verbatim>\<open>query_exclude\<close>, and leaves \<^verbatim>\<open>[path, document]\<close> in \<^verbatim>\<open>include\<close> exactly when the
  fallback fired (chunk mode requested, no record with \<^verbatim>\<open>start >= 0\<close>).
\<close>

theorem query_mutates_only_exclude_and_include:
  "(\<exists>excl inc. fst (snd (query env configs)) =
       configs\<lparr>query_exclude := excl, include_list := inc\<rparr>)
   \<and> fst (snd (get_query_result_files env coll configs)) =
       configs\<lparr>query_exclude :=
         map (\<lambda>i. expand_path env i True)
           (filter (\<lambda>i. files env i \<noteq> None) (expand_globs env (query_exclude configs)))\<rparr>
   \<and> (\<not> (chunk \<in> set (include_list configs) \<and> document \<in> set (include_list configs))
        \<and> get_collection env configs = Inr coll \<and> verify_ef env coll configs
      \<longrightarrow> fst (snd (query env configs)) =
            configs\<lparr>query_exclude :=
                      map (\<lambda>i. expand_path env i True)
                        (filter (\<lambda>i. files env i \<noteq> None)
                           (expand_globs env (query_exclude configs))),
                    include_list :=
                      (if chunk \<in> set (include_list configs)
                          \<and> length (c_get_where coll presence_clause) = 0
                       then [path, document] else include_list configs)\<rparr>)"
proof -
  have e: "expanded_exclude env configs =
      map (\<lambda>i. expand_path env i True)
        (filter (\<lambda>i. files env i \<noteq> None) (expand_globs env (query_exclude configs)))"
    by (simp add: expanded_exclude_def isfile_def [abs_def])
  from query_config_frame [of env configs coll] show ?thesis
    unfolding e .
qed

theorem query_mutates_only_exclude_and_include_witness:
  "fst (snd (query (ex_cwd_env (ex_coll 10 []) [''/p/x.py''])
                  (ex_config [path, chunk] [''*.py'', ''gone.py''])))
     = (ex_config [path, chunk] [''*.py'', ''gone.py''])
         \<lparr>query_exclude := [''/p/x.py'', ''/p/big.py''], include_list := [path, document]\<rparr>"
  using query_mutates_only_exclude_and_include
    [of "ex_cwd_env (ex_coll 10 []) [''/p/x.py'']" "ex_config [path, chunk] [''*.py'', ''gone.py'']"
        "ex_coll 10 []"]
  by (simp add: ex_cwd_env_def ex_env_def ex_coll_def ex_config_def ex_files_def)

subsection \<open>The effects of a run, piece by piece\<close>

lemma quiet_Nil: "quiet []"
  by (simp add: quiet_def)

lemma quiet_append: "quiet (xs @ ys) = (quiet xs \<and> quiet ys)"
  by (auto simp add: quiet_def searches_append)

lemma quiet_fields: "quiet (map (\<lambda>i. PrintField i (f i)) inc)"
  by (induction inc) (simp_all add: quiet_def)

lemma quiet_print_results: "quiet (print_results inc rs)"
  by (induction inc rs rule: print_results.induct)
     (simp_all add: quiet_append quiet_fields quiet_Nil, simp add: quiet_def)

lemma quiet_file_branch: "quiet (snd (file_branch env configs identifier))"
  by (simp add: file_branch_def Let_def quiet_def split: option.splits sum.splits)

lemma quiet_chunk_record: "quiet (snd (chunk_record env configs identifier meta0 text0))"
  by (simp add: chunk_record_def Let_def quiet_def split: option.splits)

lemma quiet_chunk_branch: "quiet (snd (chunk_branch env coll configs identifier))"
proof -
  have c: "quiet (GetId identifier # ev)"
    if "chunk_record env configs identifier m t = (r, ev)" for m t r ev
    using quiet_chunk_record [of env configs "identifier" m t] that by (simp add: quiet_def)
  have g: "quiet [GetId identifier, LogError NoChunkSupport]" "quiet [GetId identifier]"
    by (simp_all add: quiet_def)
  show ?thesis
    by (auto simp add: chunk_branch_def Let_def c g split: option.splits list.splits prod.splits)
qed

lemma quiet_step: "quiet (snd (build_query_results_step env coll configs identifier))"
  by (simp add: build_query_results_step_def quiet_file_branch quiet_chunk_branch)
     (simp add: quiet_def)


lemma quiet_loop: "quiet (snd (build_query_results_loop env coll configs ids))"
proof (induction ids)
  case Nil
  show ?case by (simp add: quiet_Nil)
next
  case (Cons i ids)
  obtain r ev where s: "build_query_results_step env coll configs i = (r, ev)"
    by (cases "build_query_results_step env coll configs i") auto
  obtain r' ev' where l: "build_query_results_loop env coll configs ids = (r', ev')"
    by (cases "build_query_results_loop env coll configs ids") auto
  from quiet_step [of env coll configs i] s have "quiet ev" by simp
  moreover from Cons l have "quiet ev'" by simp
  ultimately show ?case
    by (cases r; cases r') (simp_all add: s l quiet_append)
qed

lemma build_query_results_events:
  "\<exists>rest. snd (snd (build_query_results env coll configs)) =
            snd (snd (get_query_result_files env coll configs)) @ rest \<and> quiet rest"
proof -
  obtain r c ev where g: "get_query_result_files env coll configs = (r, c, ev)"
    by (cases "get_query_result_files env coll configs") auto
  show ?thesis
  proof (cases r)
    case (Inl e)
    with g show ?thesis by (simp add: build_query_results_def quiet_Nil)
  next
    case (Inr ids)
    obtain r' ev' where l: "build_query_results_loop env coll c ids = (r', ev')"
      by (cases "build_query_results_loop env coll c ids") auto
    from quiet_loop [of env coll c ids] l have "quiet ev'" by simp
    with g Inr l show ?thesis
      by (cases r') (auto simp add: build_query_results_def split: sum.splits)
  qed
qed

lemma probe_exclusion_events: "filter is_probe (exclusion_events configs) = []"
  by (simp add: exclusion_events_def)

lemma probe_plan_events: "filter is_probe (plan_events coll configs) = []"
  by (simp add: plan_events_def)

lemma get_query_result_files_probe:
  "filter is_probe (snd (snd (get_query_result_files env coll configs))) = []"
  by (simp add: get_query_result_files_def Let_def probe_exclusion_events probe_plan_events
        split: sum.splits)

lemma query_reached:
  assumes "\<not> (chunk \<in> set (include_list configs) \<and> document \<in> set (include_list configs))"
    and "get_collection env configs = Inr coll" and "verify_ef env coll configs"
    and "fallback coll configs = (configs1, ev2)"
    and "build_query_results env coll configs1 = (r, configs2, ev3)"
  shows "query env configs =
     (case r of
        Inl e \<Rightarrow>
          (if e = RerankerError
           then (Inr 1, configs2,
                 ([GetCollection] @ (if \<not> pipe configs then [PrintLine ''Starting querying...''] else []))
                 @ ev2 @ ev3 @ [LogError RerankerFailed])
           else (Inl e, configs2,
                 ([GetCollection] @ (if \<not> pipe configs then [PrintLine ''Starting querying...''] else []))
                 @ ev2 @ ev3))
      | Inr structured_result \<Rightarrow>
          (Inr 0, configs2,
           ([GetCollection] @ (if \<not> pipe configs then [PrintLine ''Starting querying...''] else []))
           @ ev2 @ ev3
           @ (if pipe configs2 then [PrintJson structured_result]
              else print_results (include_list configs2) structured_result)))"
  apply (simp only: query_def if_not_P [OF assms(1)])
  apply (simp add: assms(2-5) Let_def split: sum.splits)
  done

lemma query_events_reached:
  assumes "\<not> (chunk \<in> set (include_list configs) \<and> document \<in> set (include_list configs))"
    and "get_collection env configs = Inr coll" and "verify_ef env coll configs"
  shows "\<exists>tail. snd (snd (query env configs)) =
           [GetCollection] @ (if pipe configs then [] else [PrintLine ''Starting querying...''])
           @ snd (fallback coll configs)
           @ snd (snd (build_query_results env coll (fst (fallback coll configs)))) @ tail
         \<and> quiet tail"
proof -
  obtain c1 e2 where f: "fallback coll configs = (c1, e2)"
    by (cases "fallback coll configs") auto
  obtain r c2 e3 where b: "build_query_results env coll c1 = (r, c2, e3)"
    by (cases "build_query_results env coll c1") auto
  have q: "quiet [LogError RerankerFailed]" "\<And>rs. quiet [PrintJson rs]"
    by (simp_all add: quiet_def)
  note qr = query_reached [OF assms f b]
  show ?thesis
  proof (cases r)
    case (Inl e)
    show ?thesis
      by (cases "e = RerankerError") (simp_all add: qr Inl f b q quiet_Nil)
  next
    case (Inr rs)
    show ?thesis
      by (cases "pipe c2") (simp_all add: qr Inr f b q quiet_print_results)
  qed
qed


lemma fallback_pipe: "pipe (fst (fallback coll configs)) = pipe configs"
  by (simp add: fallback_def)

lemma embed_fallback: "filter is_embed (snd (fallback coll configs)) = []"
  by (simp add: fallback_def)

lemma query_events_unreached:
  assumes "get_collection env configs = Inr coll"
    and "(chunk \<in> set (include_list configs) \<and> document \<in> set (include_list configs))
         \<or> \<not> verify_ef env coll configs"
  shows "snd (snd (query env configs)) = [LogError BothChunkAndDocument]
         \<or> snd (snd (query env configs)) = [GetCollection]"
  using assms by (auto simp add: query_def)

subsection \<open>The empty index\<close>

text \<open>
  Claim C6. Against an empty index (\<^verbatim>\<open>count() == 0\<close>) the pipeline returns the empty
  result set, and the emptiness check comes before any embedding call:
  \<^verbatim>\<open>build_query_results\<close> returns \<^verbatim>\<open>[]\<close> after expanding the globs, counting and logging
  the error, and nothing else; no run of \<^verbatim>\<open>query\<close> on that collection embeds anything; and
  a run that passes mode validation and collection resolution exits with 0 and, in
  pipe mode, prints the empty list.
\<close>

theorem empty_collection_no_embedding:
  assumes "c_count coll = 0"
  shows "build_query_results env coll configs =
           (Inr [], configs\<lparr>query_exclude := expanded_exclude env configs\<rparr>,
            [ExpandGlobs (query_exclude configs), Count, LogError EmptyCollection])
       \<and> (get_collection env configs = Inr coll
            \<longrightarrow> filter is_embed (snd (snd (query env configs))) = [])
       \<and> (get_collection env configs = Inr coll \<and> verify_ef env coll configs
            \<and> \<not> (chunk \<in> set (include_list configs) \<and> document \<in> set (include_list configs))
            \<longrightarrow> fst (query env configs) = Inr 0
                \<and> (\<exists>ev. snd (snd (query env configs)) =
                          ev @ (if pipe configs then [PrintJson []] else [])))"
proof (intro conjI impI)
  show "build_query_results env coll configs =
           (Inr [], configs\<lparr>query_exclude := expanded_exclude env configs\<rparr>,
            [ExpandGlobs (query_exclude configs), Count, LogError EmptyCollection])"
    using assms by (rule build_query_results_empty)
next
  assume g: "get_collection env configs = Inr coll"
  show "filter is_embed (snd (snd (query env configs))) = []"
  proof (cases "(chunk \<in> set (include_list configs) \<and> document \<in> set (include_list configs))
         \<or> \<not> verify_ef env coll configs")
    case True
    from query_events_unreached [OF g True] show ?thesis by auto
  next
    case False
    then have nb: "\<not> (chunk \<in> set (include_list configs) \<and> document \<in> set (include_list configs))"
      and v: "verify_ef env coll configs" by auto
    obtain c1 e2 where f: "fallback coll configs = (c1, e2)"
      by (cases "fallback coll configs") auto
    from embed_fallback [of coll configs] f have e2: "filter is_embed e2 = []" by simp
    note b = build_query_results_empty [OF assms, of env c1]
    show ?thesis
      by (simp add: query_reached [OF nb g v f b] e2)
  qed
next
  assume a: "get_collection env configs = Inr coll \<and> verify_ef env coll configs
            \<and> \<not> (chunk \<in> set (include_list configs) \<and> document \<in> set (include_list configs))"
  then have g: "get_collection env configs = Inr coll" and v: "verify_ef env coll configs"
    and nb: "\<not> (chunk \<in> set (include_list configs) \<and> document \<in> set (include_list configs))"
    by auto
  obtain c1 e2 where f: "fallback coll configs = (c1, e2)"
    by (cases "fallback coll configs") auto
  from fallback_pipe [of coll configs] f have p: "pipe c1 = pipe configs" by simp
  note b = build_query_results_empty [OF assms, of env c1]
  note q = query_reached [OF nb g v f b]
  show "fst (query env configs) = Inr 0" by (simp add: q)
  show "\<exists>ev. snd (snd (query env configs)) = ev @ (if pipe configs then [PrintJson []] else [])"
    by (simp add: q p)
qed

theorem empty_collection_no_embedding_witness:
  "c_count (ex_coll 0 [''c1'']) = 0 \<and>
   query (ex_env (ex_coll 0 [''c1'']) [''c1'']) (ex_config [chunk] []) =
     (Inr 0, ex_config [chunk] [],
      [GetCollection, GetWhere presence_clause, ExpandGlobs [], Count,
       LogError EmptyCollection, PrintJson []])"
  using empty_collection_no_embedding
    [of "ex_coll 0 [''c1'']" "ex_env (ex_coll 0 [''c1'']) [''c1'']" "ex_config [chunk] []"]
  by (simp add: query_def fallback_def build_query_results_def get_query_result_files_def
        expanded_exclude_def ex_env_def ex_coll_def ex_config_def Let_def)

subsection \<open>The capability fallback\<close>

lemma fallback_fires:
  assumes "chunk \<in> set (include_list configs)"
    and "length (c_get_where coll presence_clause) = 0"
  shows "fallback coll configs =
           (configs\<lparr>include_list := [path, document]\<rparr>,
            [GetWhere presence_clause, LogWarning FallbackToDocument])"
  using assms by (simp add: fallback_def)

lemma searches_quiet: "quiet ev \<Longrightarrow> searches ev = []"
  by (simp add: quiet_def)

lemma probe_quiet: "quiet ev \<Longrightarrow> filter is_probe ev = []"
  by (simp add: quiet_def)

lemma get_query_result_files_searches_document:
  "searches (snd (snd (get_query_result_files env coll (configs\<lparr>include_list := [path, document]\<rparr>)))) =
     (if c_count coll = 0 then []
      else [(if query_multiplier configs > 0
             then min (py_int (of_int (n_result configs) * query_multiplier configs)) (c_count coll)
             else c_count coll,
             if expanded_exclude env configs = [] then None
             else Some [(''path'', JDict [(''$nin'', JList (map JStr (expanded_exclude env configs)))])])])"
proof (cases "c_count coll = 0")
  case True
  then show ?thesis by (simp add: get_query_result_files_empty)
next
  case False
  then show ?thesis
    by (simp add: get_query_result_files_searches plan_num_query_def build_filter_def
          exclusion_filter_def expanded_exclude_include Let_def)
qed

text \<open>
  Claim C4. Take a run of \<^verbatim>\<open>query\<close> that asks for chunk mode (without \<^verbatim>\<open>document\<close>, so
  that it passes mode validation), resolves its collection, and finds no record with
  \<^verbatim>\<open>start >= 0\<close>. Then the configuration is left with \<^verbatim>\<open>include = [path, document]\<close>; the
  run probes the index exactly once; the probe and the warning come before everything
  that \<^verbatim>\<open>build_query_results\<close> does; and the one search that follows (none on an empty
  index) is planned and filtered for the downgraded mode: the oversampled count and
  the exclusion clause alone, with no clause on \<^verbatim>\<open>start\<close>.
\<close>

theorem fallback_before_filter:
  assumes "chunk \<in> set (include_list configs)"
    and "document \<notin> set (include_list configs)"
    and "get_collection env configs = Inr coll"
    and "verify_ef env coll configs"
    and "length (c_get_where coll presence_clause) = 0"
  shows "include_list (fst (snd (query env configs))) = [path, document]
       \<and> length (filter is_probe (snd (snd (query env configs)))) = 1
       \<and> (\<exists>post. snd (snd (query env configs)) =
             [GetCollection] @ (if pipe configs then [] else [PrintLine ''Starting querying...''])
             @ [GetWhere presence_clause, LogWarning FallbackToDocument] @ post
           \<and> filter is_probe post = []
           \<and> searches post =
               (if c_count coll = 0 then []
                else [(if query_multiplier configs > 0
                       then min (py_int (of_int (n_result configs) * query_multiplier configs))
                              (c_count coll)
                       else c_count coll,
                       if expanded_exclude env configs = [] then None
                       else Some [(''path'',
                              JDict [(''$nin'', JList (map JStr (expanded_exclude env configs)))])])]))"
proof -
  from assms(2) have nb:
    "\<not> (chunk \<in> set (include_list configs) \<and> document \<in> set (include_list configs))" by simp
  note f = fallback_fires [OF assms(1) assms(5)]
  let ?c1 = "configs\<lparr>include_list := [path, document]\<rparr>"
  from query_events_reached [OF nb assms(3) assms(4)]
  obtain tail where t: "snd (snd (query env configs)) =
           [GetCollection] @ (if pipe configs then [] else [PrintLine ''Starting querying...''])
           @ [GetWhere presence_clause, LogWarning FallbackToDocument]
           @ snd (snd (build_query_results env coll ?c1)) @ tail" and qt: "quiet tail"
    by (auto simp add: f)
  from build_query_results_events [of env coll ?c1]
  obtain rest where r: "snd (snd (build_query_results env coll ?c1)) =
            snd (snd (get_query_result_files env coll ?c1)) @ rest" and qr: "quiet rest"
    by blast
  let ?post = "snd (snd (get_query_result_files env coll ?c1)) @ rest @ tail"
  have p: "filter is_probe ?post = []"
    by (simp add: get_query_result_files_probe probe_quiet [OF qr] probe_quiet [OF qt])
  have s: "searches ?post = searches (snd (snd (get_query_result_files env coll ?c1)))"
    by (simp add: searches_append searches_quiet [OF qr] searches_quiet [OF qt])
  have e: "snd (snd (query env configs)) =
             [GetCollection] @ (if pipe configs then [] else [PrintLine ''Starting querying...''])
             @ [GetWhere presence_clause, LogWarning FallbackToDocument] @ ?post"
    by (simp add: t r)
  have i: "include_list (fst (snd (query env configs))) = [path, document]"
    by (simp add: query_config_reached [OF nb assms(3) assms(4)] f)
  have n: "length (filter is_probe (snd (snd (query env configs)))) = 1"
    unfolding e using p by simp
  from e p s i n show ?thesis
    unfolding get_query_result_files_searches_document by blast
qed

theorem fallback_before_filter_witness:
  "query (ex_env (ex_coll 10 []) [''/p/x.py'']) (ex_config [path, chunk] [''/p/big.py'']) =
     (Inr 0,
      (ex_config [path, chunk] [''/p/big.py''])\<lparr>include_list := [path, document]\<rparr>,
      [GetCollection, GetWhere presence_clause, LogWarning FallbackToDocument,
       ExpandGlobs [''/p/big.py''], Count, LogInfo (Excluding 1), Count, Count,
       LogInfo (QueryingChunks 6), Embed [''foo''],
       Query 6 (Some [(''path'', JDict [(''$nin'', JList [JStr ''/p/big.py''])])]),
       Rerank, ReadFile ''/p/x.py'',
       PrintJson [[(''path'', VStr ''~x.py''), (''document'', VStr ''hello'')]]])"
  using fallback_before_filter
    [of "ex_config [path, chunk] [''/p/big.py'']" "ex_env (ex_coll 10 []) [''/p/x.py'']" "ex_coll 10 []"]
  by (simp add: query_def fallback_def build_query_results_def get_query_result_files_def
        build_query_results_step_def file_branch_def cleanup_result_def
        expanded_exclude_def exclusion_events_def plan_events_def plan_num_query_def py_int_def
        build_filter_def exclusion_filter_def isfile_def
        ex_env_def ex_coll_def ex_config_def ex_files_def Let_def)

subsection \<open>The retrieval filter in chunk mode\<close>

text \<open>
  Claim C1. In chunk mode with a non-empty exclusion set the filter should be the
  conjunction of the exclusion clause and the presence clause on \<^verbatim>\<open>start\<close>. Line 59
  builds the second operand as \<^verbatim>\<open>{"$gte": 0}\<close>, without the field name that line 61
  and the probe of line 189 give it: on the run below, which excludes one existing
  file, the filter sent to the index has an operand that names no field and is not the
  presence clause.
\<close>

theorem chunk_filter_with_exclusion_names_no_field:
  "searches (snd (snd (get_query_result_files (ex_env (ex_coll 10 [''c1'']) [''c1''])
      (ex_coll 10 [''c1'']) (ex_config [chunk] [''/p/x.py''])))) =
     [(2, Some [(''$and'',
         JList [JDict [(''path'', JDict [(''$nin'', JList [JStr ''/p/x.py''])])],
                JDict [(''$gte'', JInt 0)]])])]
   \<and> JDict [(''$gte'', JInt 0)] \<noteq> JDict presence_clause
   \<and> searches (snd (snd (get_query_result_files (ex_env (ex_coll 10 [''c1'']) [''c1''])
      (ex_coll 10 [''c1'']) (ex_config [chunk] [])))) = [(2, Some presence_clause)]"
  by (simp add: get_query_result_files_def expanded_exclude_def exclusion_events_def
        plan_events_def plan_num_query_def build_filter_def exclusion_filter_def chunk_filter_def
        isfile_def presence_clause_def ex_env_def ex_coll_def ex_config_def ex_files_def Let_def)

subsection \<open>Chunk records\<close>

lemma take_drop_nth:
  "take n (drop k xs) = map ((!) xs) [k ..< min (k + n) (length xs)]"
proof (rule nth_equalityI)
  show "length (take n (drop k xs)) = length (map ((!) xs) [k ..< min (k + n) (length xs)])"
    by (simp add: min_def) arith
next
  fix i
  assume "i < length (take n (drop k xs))"
  then have "i < n" and "k + i < length xs" by auto
  then show "take n (drop k xs) ! i = map ((!) xs) [k ..< min (k + n) (length xs)] ! i"
    by (simp add: min_def)
qed

lemma upt_clamp:
  "[min a l ..< min (min a l + (min b l - min a l)) l] = [a ..< min b (l::nat)]"
proof (cases "a \<le> l")
  case True
  show ?thesis
  proof (cases "a \<le> min b l")
    case True
    with \<open>a \<le> l\<close> show ?thesis by (simp add: min_def)
  next
    case False
    with \<open>a \<le> l\<close> show ?thesis by (simp add: min_def)
  qed
next
  case False
  then show ?thesis by (simp add: min_def)
qed

lemma nat_min_length: "0 \<le> s \<Longrightarrow> nat (min s (int l)) = min (nat s) l"
  by (simp add: min_def) linarith

lemma nat_min_diff:
  "0 \<le> s \<Longrightarrow> 0 \<le> e \<Longrightarrow>
   nat (min (e + 1) (int l) - min s (int l)) = min (nat e + 1) l - min (nat s) l"
  by (simp add: min_def) linarith

lemma py_slice_offsets:
  assumes "0 \<le> s" and "0 \<le> e"
  shows "py_slice xs s (e + 1) = map ((!) xs) [nat s ..< min (nat e + 1) (length xs)]"
proof -
  let ?l = "length xs"
  have "py_slice xs s (e + 1) =
          take (nat (min (e + 1) (int ?l) - min s (int ?l))) (drop (nat (min s (int ?l))) xs)"
    using assms by (simp add: py_slice_def Let_def)
  also have "\<dots> = take (min (nat e + 1) ?l - min (nat s) ?l) (drop (min (nat s) ?l) xs)"
    by (simp only: nat_min_length [OF assms(1)] nat_min_diff [OF assms])
  also have "\<dots> = map ((!) xs)
      [min (nat s) ?l ..< min (min (nat s) ?l + (min (nat e + 1) ?l - min (nat s) ?l)) ?l]"
    by (rule take_drop_nth)
  also have "\<dots> = map ((!) xs) [nat s ..< min (nat e + 1) ?l]"
    by (simp only: upt_clamp)
  finally show ?thesis .
qed

lemma chunk_record_lines:
  assumes "m_start meta0 = Some s" and "m_end meta0 = Some e" and "m_path meta0 = Some p"
    and "files env p = Some ls"
  shows "\<exists>r. chunk_record env configs identifier meta0 text0 = (Inr [r], [ReadFile p])
            \<and> map_of r ''chunk'' = Some (VStr (concat (py_slice ls s (e + 1))))"
  using assms by (simp add: chunk_record_def Let_def)

lemma step_chunk:
  assumes "\<not> isfile env identifier" and "chunk \<in> set (include_list configs)"
    and "gr_metadatas (c_get coll identifier) = Some (meta0 # metas)"
    and "gr_documents (c_get coll identifier) = Some (text0 # texts)"
  shows "build_query_results_step env coll configs identifier =
           (fst (chunk_record env configs identifier meta0 text0),
            GetId identifier # snd (chunk_record env configs identifier meta0 text0))"
  using assms by (simp add: build_query_results_step_def chunk_branch_def Let_def split: prod.splits)

text \<open>
  Claim C8. For a chunk record whose metadata carries the line offsets \<open>s\<close> and \<open>e\<close>
  (offsets, so not negative) and the path of a file that can be opened, the \<^verbatim>\<open>chunk\<close>
  field of the record is the concatenation of the lines of that file, as read at this
  moment, from index \<open>s\<close> through index \<open>e\<close> inclusive (as far as the file goes); the
  indexed text \<open>text0\<close> does not enter it. With \<open>s = 10\<close>, \<open>e = 12\<close> and lines 10 to 12
  being \<^verbatim>\<open>a\<close>, \<^verbatim>\<open>b\<close>, \<^verbatim>\<open>c\<close> the field is \<^verbatim>\<open>abc\<close>.
\<close>

theorem chunk_is_reread_from_source:
  assumes "\<not> isfile env identifier" and "chunk \<in> set (include_list configs)"
    and "gr_metadatas (c_get coll identifier) = Some (meta0 # metas)"
    and "gr_documents (c_get coll identifier) = Some (text0 # texts)"
    and "m_start meta0 = Some s" and "m_end meta0 = Some e" and "m_path meta0 = Some p"
    and "files env p = Some ls"
    and "0 \<le> s" and "0 \<le> e"
  shows "\<exists>r. build_query_results_step env coll configs identifier =
                (Inr [r], [GetId identifier, ReadFile p])
            \<and> map_of r ''chunk'' =
                Some (VStr (concat (map (\<lambda>i. ls ! i) [nat s ..< min (nat e + 1) (length ls)])))"
proof -
  from chunk_record_lines [OF assms(5-8)]
  obtain r where r: "chunk_record env configs identifier meta0 text0 = (Inr [r], [ReadFile p])"
    and c: "map_of r ''chunk'' = Some (VStr (concat (py_slice ls s (e + 1))))"
    by blast
  from step_chunk [OF assms(1-4)] r
  have "build_query_results_step env coll configs identifier = (Inr [r], [GetId identifier, ReadFile p])"
    by simp
  moreover from c have "map_of r ''chunk'' =
      Some (VStr (concat (map (\<lambda>i. ls ! i) [nat s ..< min (nat e + 1) (length ls)])))"
    by (simp add: py_slice_offsets [OF assms(9) assms(10)])
  ultimately show ?thesis by blast
qed

theorem chunk_is_reread_from_source_witness:
  "build_query_results_step (ex_env (ex_coll 10 [''c1'']) [''c1'']) (ex_coll 10 [''c1''])
      (ex_config [chunk] []) ''c1''
     = (Inr [[(''chunk'', VStr ''abc''), (''chunk_id'', VStr ''c1''),
              (''start_line'', VInt 10), (''end_line'', VInt 12)]],
        [GetId ''c1'', ReadFile ''/p/big.py''])"
  using chunk_is_reread_from_source
    [of "ex_env (ex_coll 10 [''c1'']) [''c1'']" "''c1''" "ex_config [chunk] []" "ex_coll 10 [''c1'']"
        "\<lparr>m_path = Some ''/p/big.py'', m_start = Some 10, m_end = Some 12\<rparr>" "[]"
        "''stale text''" "[]" 10 12 "''/p/big.py''"
        "[''import os'', ''import sys'', '''', ''def f():'', ''  return 1'', '''',
          ''def g():'', ''  return 2'', '''', ''# tail'', ''a'', ''b'', ''c'', ''# end'']"]
  by (simp add: build_query_results_step_def chunk_branch_def chunk_record_def py_slice_def
        isfile_def ex_env_def ex_coll_def ex_config_def ex_files_def ex_get_def Let_def)

lemma chunk_record_incomplete:
  assumes "m_start meta0 = None \<or> m_end meta0 = None"
  shows "chunk_record env configs identifier meta0 text0 = (Inr [], [])"
  using assms by (auto simp add: chunk_record_def Let_def split: option.splits)

text \<open>
  Claim C2. For an identifier that is not an existing file, in chunk mode, whose fetched
  metadata is non-empty and carries \<^verbatim>\<open>start\<close> and \<^verbatim>\<open>end\<close>, a record should be emitted, and
  only identifiers with missing or empty metadata should be skipped. The code opens the
  file named by the metadata without a guard (line 124). In the run below the reranker
  returns the chunk \<^verbatim>\<open>c3\<close>, whose file has been deleted since indexing, before the valid
  chunk \<^verbatim>\<open>c1\<close>: \<^verbatim>\<open>open\<close> raises, \<^verbatim>\<open>build_query_results\<close> and \<^verbatim>\<open>query\<close> end with that
  exception, \<^verbatim>\<open>c1\<close> is never looked at and nothing is printed. The chunk \<^verbatim>\<open>c2\<close>, whose
  metadata has a path and no offsets, is dropped without a record and without a log,
  because the \<^verbatim>\<open>append\<close> of line 139 sits inside the test of line 122.
\<close>

theorem stale_chunk_aborts_query:
  "\<not> isfile (ex_env (ex_coll 10 [''c1'']) [''c3'', ''c1'']) ''c3''
   \<and> chunk \<in> set (include_list (ex_config [chunk] []))
   \<and> gr_metadatas (c_get (ex_coll 10 [''c1'']) ''c3'')
       = Some [\<lparr>m_path = Some ''/p/gone.py'', m_start = Some 0, m_end = Some 1\<rparr>]
   \<and> build_query_results (ex_env (ex_coll 10 [''c1'']) [''c3'', ''c1'']) (ex_coll 10 [''c1''])
        (ex_config [chunk] [])
       = (Inl (OSError ''/p/gone.py''), ex_config [chunk] [],
          [ExpandGlobs [], Count, Embed [''foo''], Query 2 (Some presence_clause), Rerank,
           GetId ''c3'', ReadFile ''/p/gone.py''])
   \<and> query (ex_env (ex_coll 10 [''c1'']) [''c3'', ''c1'']) (ex_config [chunk] [])
       = (Inl (OSError ''/p/gone.py''), ex_config [chunk] [],
          [GetCollection, GetWhere presence_clause,
           ExpandGlobs [], Count, Embed [''foo''], Query 2 (Some presence_clause), Rerank,
           GetId ''c3'', ReadFile ''/p/gone.py''])
   \<and> gr_metadatas (c_get (ex_coll 10 [''c1'']) ''c2'')
       = Some [\<lparr>m_path = Some ''/p/big.py'', m_start = None, m_end = None\<rparr>]
   \<and> build_query_results_step (ex_env (ex_coll 10 [''c1'']) [''c3'', ''c1'']) (ex_coll 10 [''c1''])
        (ex_config [chunk] []) ''c2'' = (Inr [], [GetId ''c2''])"
  by (simp add: query_def fallback_def build_query_results_def get_query_result_files_def
        build_query_results_step_def chunk_branch_def chunk_record_def
        expanded_exclude_def exclusion_events_def plan_events_def plan_num_query_def
        build_filter_def exclusion_filter_def chunk_filter_def presence_clause_def isfile_def
        ex_env_def ex_coll_def ex_config_def ex_files_def ex_get_def Let_def)

subsection \<open>The keys of the records\<close>

lemma keys_Nil: "keys [] = {}"
  by (simp add: keys_def)

lemma keys_Cons: "keys ((k, v) # al) = insert k (keys al)"
  by (simp add: keys_def)

lemma keys_update: "keys (AList.update k v al) = insert k (keys al)"
  by (induction al) (auto simp add: keys_def)

lemma keys_update_present:
  assumes "map_of r k = Some w"
  shows "keys (AList.update k v r) = keys r"
proof -
  from assms have "(k, w) \<in> set r" by (rule map_of_SomeD)
  then have "k \<in> keys r" by (force simp add: keys_def)
  then show ?thesis by (simp add: keys_update insert_absorb)
qed

lemma project_keys_keys:
  "project_keys full ks acc = Inr r \<Longrightarrow> keys r = keys acc \<union> str_include ` set ks"
proof (induction ks arbitrary: acc)
  case Nil
  then show ?case by simp
next
  case (Cons k ks)
  then show ?case
    by (auto simp add: keys_update split: option.splits)
qed

lemma file_branch_keys:
  assumes "fst (file_branch env configs identifier) = Inr rs" and "r \<in> set rs"
  shows "keys r = str_include ` set (include_list configs)"
proof (cases "files env identifier")
  case None
  with assms show ?thesis by (simp add: file_branch_def Let_def)
next
  case (Some ls)
  let ?full = "AList.update ''document'' (VStr (concat ls))
      [(''path'', VStr (if use_absolute_path configs then abspath env identifier
                        else relpath env identifier (project_root configs)))]"
  show ?thesis
  proof (cases "project_keys ?full (include_list configs) []")
    case (Inl e)
    with assms Some show ?thesis by (simp add: file_branch_def Let_def)
  next
    case (Inr r')
    with assms Some have "r = r'" by (auto simp add: file_branch_def Let_def)
    with project_keys_keys [OF Inr] show ?thesis by (simp add: keys_Nil)
  qed
qed

lemma chunk_record_keys:
  assumes "fst (chunk_record env configs identifier meta0 text0) = Inr rs" and "r \<in> set rs"
  shows "keys r = chunk_keys configs"
proof (cases "m_start meta0 = None \<or> m_end meta0 = None")
  case True
  from chunk_record_incomplete [OF True, of env configs "identifier" text0] assms
  show ?thesis by simp
next
  case False
  then obtain s e where se: "m_start meta0 = Some s" "m_end meta0 = Some e" by auto
  let ?p = "case m_path meta0 of None \<Rightarrow> ''None'' | Some s \<Rightarrow> s"
  show ?thesis
  proof (cases "files env ?p")
    case None
    with assms se show ?thesis by (simp add: chunk_record_def Let_def)
  next
    case (Some ls)
    show ?thesis
    proof (cases "m_path meta0")
      case None
      with assms se Some show ?thesis
        by (auto simp add: chunk_record_def Let_def chunk_keys_def keys_update keys_Cons keys_Nil
              split: if_splits)
    next
      case (Some mp)
      with assms se \<open>files env ?p = Some ls\<close> show ?thesis
        by (auto simp add: chunk_record_def Let_def chunk_keys_def keys_update keys_Cons keys_Nil
              split: if_splits)
    qed
  qed
qed

lemma chunk_branch_keys:
  assumes "fst (chunk_branch env coll configs identifier) = Inr rs" and "r \<in> set rs"
  shows "keys r = chunk_keys configs"
proof (cases "gr_metadatas (c_get coll identifier)")
  case None
  with assms show ?thesis by (simp add: chunk_branch_def Let_def)
next
  case (Some ms)
  show ?thesis
  proof (cases ms)
    case Nil
    with assms Some show ?thesis by (simp add: chunk_branch_def Let_def)
  next
    case (Cons meta0 metas)
    show ?thesis
    proof (cases "gr_documents (c_get coll identifier)")
      case None
      with assms Some Cons show ?thesis by (simp add: chunk_branch_def Let_def)
    next
      case (Some ts)
      show ?thesis
      proof (cases ts)
        case Nil
        with assms \<open>gr_metadatas (c_get coll identifier) = Some ms\<close> Cons Some
        show ?thesis by (simp add: chunk_branch_def Let_def)
      next
        case (Cons text0 texts)
        with assms \<open>gr_metadatas (c_get coll identifier) = Some ms\<close> \<open>ms = meta0 # metas\<close> Some
        have "fst (chunk_record env configs identifier meta0 text0) = Inr rs"
          by (simp add: chunk_branch_def Let_def split: prod.splits)
        from chunk_record_keys [OF this assms(2)] show ?thesis .
      qed
    qed
  qed
qed

lemma step_keys:
  assumes "fst (build_query_results_step env coll configs identifier) = Inr rs" and "r \<in> set rs"
  shows "isfile env identifier \<and> fst (file_branch env configs identifier) = Inr rs
           \<and> keys r = str_include ` set (include_list configs)
         \<or> \<not> isfile env identifier \<and> chunk \<in> set (include_list configs)
           \<and> fst (chunk_branch env coll configs identifier) = Inr rs
           \<and> keys r = chunk_keys configs"
proof (cases "isfile env identifier")
  case True
  with assms have f: "fst (file_branch env configs identifier) = Inr rs"
    by (simp add: build_query_results_step_def)
  from file_branch_keys [OF f assms(2)] f True show ?thesis by simp
next
  case False
  show ?thesis
  proof (cases "chunk \<in> set (include_list configs)")
    case True
    with assms False have c: "fst (chunk_branch env coll configs identifier) = Inr rs"
      by (simp add: build_query_results_step_def)
    from chunk_branch_keys [OF c assms(2)] c True False show ?thesis by simp
  next
    case f: False
    with assms False show ?thesis by (simp add: build_query_results_step_def)
  qed
qed

subsection \<open>From the output back to the loop\<close>

lemma loop_results:
  assumes "fst (build_query_results_loop env coll configs ids) = Inr rs" and "r \<in> set rs"
  shows "\<exists>i rs'. i \<in> set ids \<and> fst (build_query_results_step env coll configs i) = Inr rs'
           \<and> r \<in> set rs'"
  using assms
proof (induction ids arbitrary: rs)
  case Nil
  then show ?case by simp
next
  case (Cons i ids)
  obtain a ev where s: "build_query_results_step env coll configs i = (a, ev)"
    by (cases "build_query_results_step env coll configs i") auto
  obtain b ev' where l: "build_query_results_loop env coll configs ids = (b, ev')"
    by (cases "build_query_results_loop env coll configs ids") auto
  from Cons.prems(1) s l obtain rs1 rs2 where a: "a = Inr rs1" and b: "b = Inr rs2"
    and rs: "rs = rs1 @ rs2"
    by (cases a; cases b) auto
  from Cons.prems(2) rs have "r \<in> set rs1 \<or> r \<in> set rs2" by simp
  then show ?case
  proof
    assume "r \<in> set rs1"
    with s a show ?thesis by auto
  next
    assume r2: "r \<in> set rs2"
    from l b have "fst (build_query_results_loop env coll configs ids) = Inr rs2" by simp
    from Cons.IH [OF this r2] show ?thesis by auto
  qed
qed

lemma cleanup_result_cases:
  assumes "cleanup_result env r = Inr r'"
  shows "map_of r ''path'' = None \<and> r' = r
       \<or> (\<exists>p. map_of r ''path'' = Some (VStr p)
              \<and> r' = AList.update ''path'' (VStr (cleanup_path env p)) r)"
  using assms by (auto simp add: cleanup_result_def split: option.splits rval.splits)

lemma cleanup_result_keys:
  assumes "cleanup_result env r = Inr r'"
  shows "keys r' = keys r"
  using cleanup_result_cases [OF assms] by (auto simp add: keys_update_present)

lemma cleanup_results_elem:
  assumes "cleanup_results env rs = Inr out" and "r' \<in> set out"
  shows "\<exists>r. r \<in> set rs \<and> cleanup_result env r = Inr r'"
  using assms
proof (induction rs arbitrary: out)
  case Nil
  then show ?case by simp
next
  case (Cons r rs)
  from Cons.prems(1) obtain x xs where x: "cleanup_result env r = Inr x"
    and xs: "cleanup_results env rs = Inr xs" and out: "out = x # xs"
    by (auto split: sum.splits)
  from Cons.prems(2) out have "r' = x \<or> r' \<in> set xs" by simp
  then show ?case
  proof
    assume "r' = x"
    with x show ?thesis by auto
  next
    assume "r' \<in> set xs"
    from Cons.IH [OF xs this] show ?thesis by auto
  qed
qed

lemma build_query_results_elem:
  assumes "fst (build_query_results env coll configs) = Inr out" and "r' \<in> set out"
  shows "\<exists>ids raw r. fst (get_query_result_files env coll configs) = Inr ids
           \<and> fst (build_query_results_loop env coll
                     (configs\<lparr>query_exclude := expanded_exclude env configs\<rparr>) ids) = Inr raw
           \<and> r \<in> set raw \<and> cleanup_result env r = Inr r'"
proof -
  obtain a c ev where g: "get_query_result_files env coll configs = (a, c, ev)"
    by (cases "get_query_result_files env coll configs") auto
  with get_query_result_files_config [of env coll configs]
  have c: "c = configs\<lparr>query_exclude := expanded_exclude env configs\<rparr>" by simp
  from assms(1) g obtain ids where a: "a = Inr ids"
    by (cases a) (auto simp add: build_query_results_def)
  obtain b ev' where l: "build_query_results_loop env coll c ids = (b, ev')"
    by (cases "build_query_results_loop env coll c ids") auto
  from assms(1) g a l obtain raw where b: "b = Inr raw"
    by (cases b) (auto simp add: build_query_results_def)
  from assms(1) g a l b have o: "cleanup_results env raw = Inr out"
    by (auto simp add: build_query_results_def split: sum.splits)
  from cleanup_results_elem [OF o assms(2)]
  obtain r where "r \<in> set raw" "cleanup_result env r = Inr r'" by blast
  with g a l b c show ?thesis by auto
qed

subsection \<open>The shape of the output\<close>

text \<open>
  Claim C3, as the code has it. Every record \<open>r\<close> that \<^verbatim>\<open>build_query_results\<close> returns is
  the cleaned-up form of a record \<open>r0\<close> that the loop appended for one of the reranked
  identifiers, and its keys follow the branch that built \<open>r0\<close>: if the identifier is an
  existing file, \<open>r0\<close> is the record of the file branch and \<open>r\<close> has exactly the requested
  keys; otherwise chunk mode was requested, \<open>r0\<close> is the record of the chunk branch and
  \<open>r\<close> has \<^verbatim>\<open>chunk\<close>, \<^verbatim>\<open>chunk_id\<close>, \<^verbatim>\<open>start_line\<close> and \<^verbatim>\<open>end_line\<close>, with \<^verbatim>\<open>path\<close> exactly when
  \<^verbatim>\<open>path\<close> was requested.
\<close>

theorem result_keys_by_branch:
  assumes "fst (build_query_results env coll configs) = Inr out" and "r \<in> set out"
  shows "\<exists>ids identifier rs r0.
           fst (get_query_result_files env coll configs) = Inr ids
         \<and> identifier \<in> set ids \<and> r0 \<in> set rs \<and> cleanup_result env r0 = Inr r
         \<and> (isfile env identifier
              \<and> fst (file_branch env (configs\<lparr>query_exclude := expanded_exclude env configs\<rparr>)
                        identifier) = Inr rs
              \<and> keys r = str_include ` set (include_list configs)
            \<or> \<not> isfile env identifier \<and> chunk \<in> set (include_list configs)
              \<and> fst (chunk_branch env coll
                        (configs\<lparr>query_exclude := expanded_exclude env configs\<rparr>) identifier)
                  = Inr rs
              \<and> keys r = {''chunk'', ''chunk_id'', ''start_line'', ''end_line''}
                         \<union> (if path \<in> set (include_list configs) then {''path''} else {}))"
proof -
  let ?c = "configs\<lparr>query_exclude := expanded_exclude env configs\<rparr>"
  from build_query_results_elem [OF assms]
  obtain ids raw r0 where g: "fst (get_query_result_files env coll configs) = Inr ids"
    and l: "fst (build_query_results_loop env coll ?c ids) = Inr raw"
    and r0: "r0 \<in> set raw" and c: "cleanup_result env r0 = Inr r"
    by blast
  from loop_results [OF l r0]
  obtain i rs' where i: "i \<in> set ids"
    and s: "fst (build_query_results_step env coll ?c i) = Inr rs'" and m: "r0 \<in> set rs'"
    by blast
  from step_keys [OF s m] cleanup_result_keys [OF c]
  have k: "isfile env i \<and> fst (file_branch env ?c i) = Inr rs'
              \<and> keys r = str_include ` set (include_list configs)
            \<or> \<not> isfile env i \<and> chunk \<in> set (include_list configs)
              \<and> fst (chunk_branch env coll ?c i) = Inr rs'
              \<and> keys r = {''chunk'', ''chunk_id'', ''start_line'', ''end_line''}
                         \<union> (if path \<in> set (include_list configs) then {''path''} else {})"
    by (simp add: chunk_keys_def)
  have "fst (get_query_result_files env coll configs) = Inr ids
         \<and> i \<in> set ids \<and> r0 \<in> set rs' \<and> cleanup_result env r0 = Inr r
         \<and> (isfile env i \<and> fst (file_branch env ?c i) = Inr rs'
              \<and> keys r = str_include ` set (include_list configs)
            \<or> \<not> isfile env i \<and> chunk \<in> set (include_list configs)
              \<and> fst (chunk_branch env coll ?c i) = Inr rs'
              \<and> keys r = {''chunk'', ''chunk_id'', ''start_line'', ''end_line''}
                         \<union> (if path \<in> set (include_list configs) then {''path''} else {}))"
    using g i m c k by (intro conjI)
  then show ?thesis
    by (intro exI [where x = ids] exI [where x = i] exI [where x = rs'] exI [where x = r0])
qed

theorem result_keys_by_branch_witness:
  "fst (build_query_results (ex_env (ex_coll 10 [''c1'']) [''c1'']) (ex_coll 10 [''c1''])
          (ex_config [path, chunk] []))
     = Inr [[(''chunk'', VStr ''abc''), (''chunk_id'', VStr ''c1''),
             (''start_line'', VInt 10), (''end_line'', VInt 12), (''path'', VStr ''~big.py'')]]
   \<and> fst (build_query_results (ex_env (ex_coll 10 []) [''/p/x.py'']) (ex_coll 10 [])
          (ex_config [document] []))
     = Inr [[(''document'', VStr ''hello'')]]
   \<and> keys [(''chunk'', VStr ''abc''), (''chunk_id'', VStr ''c1''),
            (''start_line'', VInt 10), (''end_line'', VInt 12), (''path'', VStr ''~big.py'')]
       = {''path'', ''chunk'', ''chunk_id'', ''start_line'', ''end_line''}
   \<and> keys [(''document'', VStr ''hello'')] = {''document''}"
proof -
  let ?e1 = "ex_env (ex_coll 10 [''c1'']) [''c1'']" and ?c1 = "ex_coll 10 [''c1'']"
  let ?r1 = "[(''chunk'', VStr ''abc''), (''chunk_id'', VStr ''c1''),
             (''start_line'', VInt 10), (''end_line'', VInt 12), (''path'', VStr ''~big.py'')]"
  let ?e2 = "ex_env (ex_coll 10 []) [''/p/x.py'']" and ?c2 = "ex_coll 10 []"
  let ?r2 = "[(''document'', VStr ''hello'')]"
  have run1: "fst (build_query_results ?e1 ?c1 (ex_config [path, chunk] [])) = Inr [?r1]"
    by (simp add: build_query_results_def get_query_result_files_def
        build_query_results_step_def chunk_branch_def chunk_record_def cleanup_result_def
        py_slice_def expanded_exclude_def exclusion_events_def plan_events_def plan_num_query_def
        build_filter_def exclusion_filter_def chunk_filter_def isfile_def
        ex_env_def ex_coll_def ex_config_def ex_files_def ex_get_def Let_def)
  have run2: "fst (build_query_results ?e2 ?c2 (ex_config [document] [])) = Inr [?r2]"
    by (simp add: build_query_results_def get_query_result_files_def
        build_query_results_step_def file_branch_def cleanup_result_def
        expanded_exclude_def exclusion_events_def plan_events_def plan_num_query_def py_int_def
        build_filter_def exclusion_filter_def isfile_def
        ex_env_def ex_coll_def ex_config_def ex_files_def Let_def)
  have f1: "\<not> isfile ?e1 ''c1''"
    by (simp add: isfile_def ex_env_def ex_files_def)
  have ids1: "fst (get_query_result_files ?e1 ?c1 (ex_config [path, chunk] [])) = Inr [''c1'']"
    by (simp add: get_query_result_files_def ex_env_def ex_coll_def Let_def)
  have f2: "isfile ?e2 ''/p/x.py''"
    by (simp add: isfile_def ex_env_def ex_files_def)
  have ids2: "fst (get_query_result_files ?e2 ?c2 (ex_config [document] [])) = Inr [''/p/x.py'']"
    by (simp add: get_query_result_files_def ex_env_def ex_coll_def Let_def)
  have p1: "path \<in> set (include_list (ex_config [path, chunk] []))"
    and i2: "str_include ` set (include_list (ex_config [document] [])) = {''document''}"
    by (simp_all add: ex_config_def)
  have mem1: "?r1 \<in> set [?r1]" and mem2: "?r2 \<in> set [?r2]"
    by simp_all
  from result_keys_by_branch [OF run1 mem1]
  obtain ids i where g1: "fst (get_query_result_files ?e1 ?c1 (ex_config [path, chunk] [])) = Inr ids"
    and m1: "i \<in> set ids"
    and d1: "isfile ?e1 i \<and> keys ?r1 = str_include ` set (include_list (ex_config [path, chunk] []))
       \<or> \<not> isfile ?e1 i
         \<and> keys ?r1 = {''chunk'', ''chunk_id'', ''start_line'', ''end_line''}
              \<union> (if path \<in> set (include_list (ex_config [path, chunk] [])) then {''path''} else {})"
    by blast
  from g1 have "ids = [''c1'']" unfolding ids1 by simp
  with m1 have "i = ''c1''" by simp
  with f1 d1 have "keys ?r1 = {''chunk'', ''chunk_id'', ''start_line'', ''end_line''}
              \<union> (if path \<in> set (include_list (ex_config [path, chunk] [])) then {''path''} else {})"
    by blast
  then have k1: "keys ?r1 = {''path'', ''chunk'', ''chunk_id'', ''start_line'', ''end_line''}"
    by (simp only: p1 if_True Un_insert_right Un_empty_right)
  from result_keys_by_branch [OF run2 mem2]
  obtain ids' i' where g2: "fst (get_query_result_files ?e2 ?c2 (ex_config [document] [])) = Inr ids'"
    and m2: "i' \<in> set ids'"
    and d2: "isfile ?e2 i' \<and> keys ?r2 = str_include ` set (include_list (ex_config [document] []))
       \<or> \<not> isfile ?e2 i' \<and> chunk \<in> set (include_list (ex_config [document] []))"
    by blast
  from g2 have "ids' = [''/p/x.py'']" unfolding ids2 by simp
  with m2 have "i' = ''/p/x.py''" by simp
  with f2 d2 have "keys ?r2 = str_include ` set (include_list (ex_config [document] []))"
    by blast
  then have k2: "keys ?r2 = {''document''}"
    by (simp only: i2)
  from run1 run2 k1 k2 show ?thesis by (intro conjI)
qed

text \<open>
  The claim as it was stated confines every record to the requested keys. A chunk record
  asked for with \<^verbatim>\<open>include = [chunk]\<close> also carries \<^verbatim>\<open>chunk_id\<close>, \<^verbatim>\<open>start_line\<close> and
  \<^verbatim>\<open>end_line\<close>.
\<close>

theorem chunk_record_has_unrequested_keys:
  "fst (build_query_results (ex_env (ex_coll 10 [''c1'']) [''c1'']) (ex_coll 10 [''c1''])
          (ex_config [chunk] []))
     = Inr [[(''chunk'', VStr ''abc''), (''chunk_id'', VStr ''c1''),
             (''start_line'', VInt 10), (''end_line'', VInt 12)]]
   \<and> \<not> keys [(''chunk'', VStr ''abc''), (''chunk_id'', VStr ''c1''),
              (''start_line'', VInt 10), (''end_line'', VInt 12)]
         \<subseteq> str_include ` set (include_list (ex_config [chunk] []))"
  by (simp add: build_query_results_def get_query_result_files_def
        build_query_results_step_def chunk_branch_def chunk_record_def cleanup_result_def
        py_slice_def expanded_exclude_def exclusion_events_def plan_events_def plan_num_query_def
        build_filter_def exclusion_filter_def chunk_filter_def isfile_def keys_def
        ex_env_def ex_coll_def ex_config_def ex_files_def ex_get_def Let_def)

text \<open>
  Claim C9. Every record of the final output that carries a \<^verbatim>\<open>path\<close> got it from
  \<^verbatim>\<open>cleanup_path\<close>: the record is a record \<open>r0\<close> that the loop appended, whichever branch
  built it, with its path \<open>p\<close> replaced by \<^verbatim>\<open>cleanup_path(p)\<close>.
\<close>

theorem every_path_is_cleaned:
  assumes "fst (build_query_results env coll configs) = Inr out" and "r \<in> set out"
    and "map_of r ''path'' = Some v"
  shows "\<exists>ids raw r0 p.
           fst (get_query_result_files env coll configs) = Inr ids
         \<and> fst (build_query_results_loop env coll
                   (configs\<lparr>query_exclude := expanded_exclude env configs\<rparr>) ids) = Inr raw
         \<and> r0 \<in> set raw \<and> map_of r0 ''path'' = Some (VStr p)
         \<and> r = AList.update ''path'' (VStr (cleanup_path env p)) r0
         \<and> v = VStr (cleanup_path env p)"
proof -
  from build_query_results_elem [OF assms(1) assms(2)]
  obtain ids raw r0 where g: "fst (get_query_result_files env coll configs) = Inr ids"
    and l: "fst (build_query_results_loop env coll
                   (configs\<lparr>query_exclude := expanded_exclude env configs\<rparr>) ids) = Inr raw"
    and r0: "r0 \<in> set raw" and c: "cleanup_result env r0 = Inr r"
    by blast
  from cleanup_result_cases [OF c] assms(3)
  obtain p where p: "map_of r0 ''path'' = Some (VStr p)"
    and r: "r = AList.update ''path'' (VStr (cleanup_path env p)) r0"
    by auto
  from r assms(3) have "v = VStr (cleanup_path env p)"
    by (simp add: update_conv')
  with g l r0 p r show ?thesis by blast
qed

theorem every_path_is_cleaned_witness:
  "fst (build_query_results (ex_env (ex_coll 10 [''c1'']) [''/p/x.py'']) (ex_coll 10 [''c1''])
          (ex_config [path, document] []))
     = Inr [[(''path'', VStr ''~x.py''), (''document'', VStr ''hello'')]]
   \<and> fst (build_query_results (ex_env (ex_coll 10 [''c1'']) [''c1'']) (ex_coll 10 [''c1''])
          (ex_config [path, chunk] []))
     = Inr [[(''chunk'', VStr ''abc''), (''chunk_id'', VStr ''c1''),
             (''start_line'', VInt 10), (''end_line'', VInt 12), (''path'', VStr ''~big.py'')]]
   \<and> cleanup_path (ex_env (ex_coll 10 [''c1'']) [''c1'']) ''big.py'' = ''~big.py''"
  using every_path_is_cleaned
    [of "ex_env (ex_coll 10 [''c1'']) [''c1'']" "ex_coll 10 [''c1'']" "ex_config [path, chunk] []"
        "[[(''chunk'', VStr ''abc''), (''chunk_id'', VStr ''c1''),
             (''start_line'', VInt 10), (''end_line'', VInt 12), (''path'', VStr ''~big.py'')]]"
        "[(''chunk'', VStr ''abc''), (''chunk_id'', VStr ''c1''),
             (''start_line'', VInt 10), (''end_line'', VInt 12), (''path'', VStr ''~big.py'')]"
        "VStr ''~big.py''"]
  by (simp add: build_query_results_def get_query_result_files_def
        build_query_results_step_def file_branch_def chunk_branch_def chunk_record_def
        cleanup_result_def py_slice_def
        expanded_exclude_def exclusion_events_def plan_events_def plan_num_query_def
        build_filter_def exclusion_filter_def chunk_filter_def isfile_def
        ex_env_def ex_coll_def ex_config_def ex_files_def ex_get_def Let_def)

end
